theory Spec2Isabelle
  imports Complex_Main "HOL-Library.Sublist"
begin

section \<open>Values and primitives of the host language\<close>

text \<open>
  The anomaly router is Python. Exceptions are values of \<open>exn\<close>; a function that may raise
  returns \<open>exn + 'a\<close> with \<open>Inl\<close> for the exception. A Python \<open>str\<close> is a
  \<open>string\<close> whose characters are the code points below 256; on these the regular
  expression class \<^verbatim>\<open>\d\<close> is exactly the ten ASCII digits.
\<close>

datatype exn =
    TypeError
  | ValueError
  | OverflowError
  | RuntimeError string
  | LoadError

text \<open>
  \<open>TxIn.meta\<close> is declared \<^verbatim>\<open>Dict[str, Any]\<close> and is filled from a JSON body, so its
  values are the JSON values.
\<close>

datatype pyval =
    PyNone
  | PyBool bool
  | PyInt int
  | PyFloat real
  | PyNaN
  | PyInf bool
  | PyStr string
  | PyList "pyval list"
  | PyDict "(string \<times> pyval) list"

text \<open>
  The library functions the router calls are parameters of the model:
  \<^item> \<open>fromisoformat_hour s\<close> is \<^verbatim>\<open>datetime.fromisoformat(s).hour\<close>, \<open>None\<close> when
    \<^verbatim>\<open>fromisoformat\<close> raises \<^verbatim>\<open>ValueError\<close>;
  \<^item> \<open>utcnow_hour\<close> is \<^verbatim>\<open>datetime.utcnow().hour\<close>;
  \<^item> \<open>str_to_int s\<close> is \<^verbatim>\<open>int(s)\<close> on a string, \<open>None\<close> when it raises
    \<^verbatim>\<open>ValueError\<close>;
  \<^item> \<open>py_hash s\<close> is the builtin \<^verbatim>\<open>hash(s)\<close>.
\<close>

record host =
  fromisoformat_hour :: "string \<Rightarrow> int option"
  utcnow_hour :: int
  str_to_int :: "string \<Rightarrow> int option"
  py_hash :: "string \<Rightarrow> int"

text \<open>The builtin \<^verbatim>\<open>int(v)\<close>: truncation toward zero on floats, an exception elsewhere.\<close>

fun py_int :: "host \<Rightarrow> pyval \<Rightarrow> exn + int" where
  "py_int H PyNone = Inl TypeError"
| "py_int H (PyBool b) = Inr (if b then 1 else 0)"
| "py_int H (PyInt n) = Inr n"
| "py_int H (PyFloat x) = Inr (if 0 \<le> x then \<lfloor>x\<rfloor> else \<lceil>x\<rceil>)"
| "py_int H PyNaN = Inl ValueError"
| "py_int H (PyInf _) = Inl OverflowError"
| "py_int H (PyStr s) = (case str_to_int H s of None \<Rightarrow> Inl ValueError | Some n \<Rightarrow> Inr n)"
| "py_int H (PyList _) = Inl TypeError"
| "py_int H (PyDict _) = Inl TypeError"

section \<open>Floating-point arithmetic\<close>

text \<open>
  A Python float is an IEEE 754 double. A finite double is modelled by the real number it
  stands for, and an arithmetic operation on doubles by the exact operation followed by
  \<open>fl\<close>, the rounding to the nearest double with ties to the even significand: the
  unit in the last place of \<open>x\<close> is \<open>2 powi ulp_exp x\<close>, 52 binary places below the
  leading bit of \<open>x\<close> and never below the subnormal spacing \<open>2 powi (- 1074)\<close>. A decimal
  literal \<open>d\<close> of the source or of a JSON body denotes \<open>fl d\<close>. Comparisons of doubles,
  and of a double with an integer, are exact. The non-finite doubles are outside the
  model: amounts and history values are finite, and no result exceeds the range of the
  doubles. The two scores are kept as exact real quotients.
\<close>

definition round_even :: "real \<Rightarrow> int" where
  "round_even x =
     (if x - of_int \<lfloor>x\<rfloor> < 1 / 2 then \<lfloor>x\<rfloor>
      else if 1 / 2 < x - of_int \<lfloor>x\<rfloor> then \<lfloor>x\<rfloor> + 1
      else if even \<lfloor>x\<rfloor> then \<lfloor>x\<rfloor> else \<lfloor>x\<rfloor> + 1)"

definition ulp_exp :: "real \<Rightarrow> int" where
  "ulp_exp x = max (\<lfloor>log 2 \<bar>x\<bar>\<rfloor> - 52) (- 1074)"

definition fl :: "real \<Rightarrow> real" where
  "fl x = (if x = 0 then 0
           else of_int (round_even (x / 2 powi ulp_exp x)) * 2 powi ulp_exp x)"

text \<open>The double that the decimal literal \<open>n / 10 ^ d\<close> denotes: 815.11 is \<open>float_literal 81511 2\<close>.\<close>

definition float_literal :: "int \<Rightarrow> nat \<Rightarrow> real" where
  "float_literal n d = fl (of_int n / 10 ^ d)"

section \<open>Data model\<close>

record TxIn =
  userId :: string
  amount :: real
  timestamp :: string
  merchant :: string
  merchant_category :: string
  is_international :: bool
  currency :: string
  meta :: "string \<rightharpoonup> pyval"

record AnomalyResp =
  anomaly :: bool
  score :: real
  reasons :: "string list"

text \<open>
  The history profile is a dictionary read only with \<^verbatim>\<open>.get(key, default)\<close>; a field
  is \<open>None\<close> when its key is absent, and a key that is present holds a value of the type
  the stub provider gives it (numbers for the amounts and the count, a list of names for
  the merchants).
\<close>

record user_history =
  avg_amount :: "real option"
  median_amount :: "real option"
  std_amount :: "real option"
  transactions_today :: "int option"
  merchants :: "string list option"
  country :: "string option"
  timezone_offset_hours :: "real option"

definition get_user_history_stub :: "string \<Rightarrow> user_history" where
  "get_user_history_stub user_id =
     \<lparr> avg_amount = Some 600, median_amount = Some 350, std_amount = Some 400,
       transactions_today = Some 2,
       merchants = Some [''Zomato'', ''SBI Card'', ''Amazon''],
       country = Some ''IN'', timezone_offset_hours = Some (11 / 2) \<rparr>"

section \<open>Hour extraction\<close>

text \<open>
  \<^verbatim>\<open>int(meta.get("hour", datetime.utcnow().hour))\<close>, the fallback used for an empty
  timestamp and in the exception handler.
\<close>

definition meta_hour :: "host \<Rightarrow> (string \<rightharpoonup> pyval) \<Rightarrow> exn + int" where
  "meta_hour H m =
     py_int H (case m ''hour'' of None \<Rightarrow> PyInt (utcnow_hour H) | Some v \<Rightarrow> v)"

definition parse_iso_hour :: "host \<Rightarrow> string \<Rightarrow> (string \<rightharpoonup> pyval) \<Rightarrow> exn + int" where
  "parse_iso_hour H ts m =
     (if ts = [] then meta_hour H m
      else
        (let ts' = (if last ts = CHR ''Z'' then butlast ts @ ''+00:00'' else ts)
         in case fromisoformat_hour H ts' of
              Some h \<Rightarrow> Inr h
            | None \<Rightarrow> meta_hour H m))"

section \<open>Rule-based detector\<close>

text \<open>
  The detector runs on a frame holding the two argument objects and the local list
  \<open>reasons\<close>; every statement maps a frame to a frame, so that what the function does to
  its arguments is part of the model.
\<close>

record rule_frame =
  fr_tx :: TxIn
  fr_user_history :: user_history
  fr_reasons :: "string list"

definition append_reason :: "string \<Rightarrow> rule_frame \<Rightarrow> rule_frame" where
  "append_reason r f = f\<lparr>fr_reasons := fr_reasons f @ [r]\<rparr>"

definition rule_based_check_frame ::
  "host \<Rightarrow> TxIn \<Rightarrow> user_history \<Rightarrow> rule_frame \<times> (exn + bool \<times> real \<times> string list)" where
  "rule_based_check_frame H tx user_history =
     (let f0 = \<lparr>fr_tx = tx, fr_user_history = user_history, fr_reasons = []\<rparr>;
          amount = amount (fr_tx f0);
          avg = (case avg_amount (fr_user_history f0) of None \<Rightarrow> 500 | Some a \<Rightarrow> a);
          std = (case std_amount (fr_user_history f0) of
                   None \<Rightarrow> max 1 (fl (avg * fl (6 / 10))) | Some s \<Rightarrow> s);
          med = (case median_amount (fr_user_history f0) of None \<Rightarrow> avg | Some m \<Rightarrow> m)
      in case parse_iso_hour H (timestamp (fr_tx f0)) (meta (fr_tx f0)) of
           Inl e \<Rightarrow> (f0, Inl e)
         | Inr hour \<Rightarrow>
             (let f1 = (if amount > 20000
                        then append_reason ''Very large transaction amount'' f0 else f0);
                  f2 = (if amount > fl (med * 3)
                        then append_reason ''High compared to user's typical transaction'' f1
                        else f1);
                  f3 = (if amount > fl (avg + fl (3 * std))
                        then append_reason ''Amount is far outside typical variance'' f2
                        else f2);
                  f4 = (if hour < 6 \<or> hour > 23
                        then append_reason ''Transaction at unusual hour'' f3 else f3);
                  f5 = (if merchant (fr_tx f4) \<notin>
                             set (case merchants (fr_user_history f4) of
                                    None \<Rightarrow> [] | Some ms \<Rightarrow> ms)
                        then append_reason ''Merchant is new/unfamiliar'' f4 else f4);
                  f6 = (if is_international (fr_tx f5) \<and> amount > 1000
                        then append_reason ''International high-value transaction'' f5
                        else f5);
                  f7 = (if (case transactions_today (fr_user_history f6) of
                              None \<Rightarrow> 0 | Some n \<Rightarrow> n) > 10
                        then append_reason ''Unusually high transaction frequency today'' f6
                        else f6);
                  anomaly = (length (fr_reasons f7) > 0);
                  score = min 1 (real (length (fr_reasons f7)) / 5)
              in (f7, Inr (anomaly, score, fr_reasons f7))))"

definition rule_based_check ::
  "host \<Rightarrow> TxIn \<Rightarrow> user_history \<Rightarrow> exn + bool \<times> real \<times> string list" where
  "rule_based_check H tx user_history = snd (rule_based_check_frame H tx user_history)"

section \<open>PII masker\<close>

definition is_digit :: "char \<Rightarrow> bool" where
  "is_digit c = (c \<in> set ''0123456789'')"

text \<open>
  \<^verbatim>\<open>re.sub(r"\d{8,}", "[MASKED_NUMBER]", text)\<close>: the scan goes left to right; at each
  position the greedy pattern takes the whole run of digits that starts there and matches
  when that run has at least 8 of them, the match is replaced by the token and the scan
  goes on after it; where there is no match the character is copied and the scan moves one
  position on.
\<close>

function mask_personal_data :: "string \<Rightarrow> string" where
  "mask_personal_data [] = []"
| "mask_personal_data (c # cs) =
     (if 8 \<le> length (takeWhile is_digit (c # cs))
      then ''[MASKED_NUMBER]'' @ mask_personal_data (dropWhile is_digit (c # cs))
      else c # mask_personal_data cs)"
  by pat_completeness auto
termination
proof (relation "measure length")
  show "wf (measure length)" by simp
next
  fix c :: char and cs :: string
  assume "8 \<le> length (takeWhile is_digit (c # cs))"
  then have "is_digit c" by (auto split: if_splits)
  then have "length (dropWhile is_digit (c # cs)) \<le> length cs"
    by (simp add: length_dropWhile_le)
  then show "(dropWhile is_digit (c # cs), c # cs) \<in> measure length" by simp
next
  fix c :: char and cs :: string
  show "(cs, c # cs) \<in> measure length" by simp
qed

text \<open>
  \<^verbatim>\<open>detect_rule\<close>: the handler fetches the stub history, computes the masked merchant into
  a local variable and calls the detector on the transaction it received. The model returns
  the transaction object as it is after the call, the local \<open>masked_merchant\<close>, and the
  response.
\<close>

definition detect_rule_frame :: "host \<Rightarrow> TxIn \<Rightarrow> TxIn \<times> string \<times> (exn + AnomalyResp)" where
  "detect_rule_frame H tx =
     (let user_history = get_user_history_stub (userId tx);
          masked_merchant = mask_personal_data (merchant tx)
      in case rule_based_check_frame H tx user_history of
           (f, Inl e) \<Rightarrow> (fr_tx f, masked_merchant, Inl e)
         | (f, Inr (anom, sc, rs)) \<Rightarrow>
             (fr_tx f, masked_merchant, Inr \<lparr>anomaly = anom, score = sc, reasons = rs\<rparr>))"

section \<open>Statistical detector\<close>

text \<open>
  The model handle \<^verbatim>\<open>_ml_model\<close> is a module global. The process state holds it together
  with a trace of the operations the detector has performed, so that the order of the
  operations can be stated. What is at \<^verbatim>\<open>ML_MODEL_PATH\<close> at the time of a call is an
  argument of the call: nothing (\<open>Absent\<close>), a file \<^verbatim>\<open>joblib.load\<close> fails on
  (\<open>Unreadable\<close>), or a file that loads to an object, which may be \<^verbatim>\<open>None\<close>.
  Neither \<^verbatim>\<open>ml_detector\<close> nor \<^verbatim>\<open>detect_ml\<close> calls the history provider.
  Building the feature array converts the hour, a Python integer of any size, to a double:
  the conversion raises \<^verbatim>\<open>OverflowError\<close> when the integer would round to a value
  beyond the largest double, that is from \<open>2 ^ 1024 - 2 ^ 970\<close> on in absolute value.
\<close>

record classifier =
  decision_function :: "real list \<Rightarrow> real"
  predict :: "real list \<Rightarrow> int"

datatype artifact = Absent | Unreadable | Stored "classifier option"

datatype event =
    PathExists
  | JoblibLoad
  | ParseIsoHour
  | HashMerchant
  | FeatureVector
  | DecisionFunction
  | Predict

record process =
  ml_model :: "classifier option"
  trace :: "event list"

definition log_event :: "event \<Rightarrow> process \<Rightarrow> process" where
  "log_event ev p = p\<lparr>trace := trace p @ [ev]\<rparr>"

definition load_ml_model :: "artifact \<Rightarrow> process \<Rightarrow> process \<times> (exn + classifier option)" where
  "load_ml_model art p =
     (if ml_model p = None then
        (let p1 = log_event PathExists p in
         case art of
           Absent \<Rightarrow> (p1, Inr (ml_model p1))
         | Unreadable \<Rightarrow> (log_event JoblibLoad p1, Inl LoadError)
         | Stored m \<Rightarrow>
             (let p2 = (log_event JoblibLoad p1)\<lparr>ml_model := m\<rparr> in (p2, Inr (ml_model p2))))
      else (p, Inr (ml_model p)))"

definition ml_detector ::
  "host \<Rightarrow> artifact \<Rightarrow> TxIn \<Rightarrow> process \<Rightarrow> process \<times> (exn + bool \<times> real \<times> string list)" where
  "ml_detector H art tx p =
     (case load_ml_model art p of
        (p1, Inl e) \<Rightarrow> (p1, Inl e)
      | (p1, Inr None) \<Rightarrow> (p1, Inl (RuntimeError ''ML model not found on server.''))
      | (p1, Inr (Some model)) \<Rightarrow>
          (let p2 = log_event ParseIsoHour p1 in
           case parse_iso_hour H (timestamp tx) (meta tx) of
             Inl e \<Rightarrow> (p2, Inl e)
           | Inr hour \<Rightarrow>
               (let p3 = log_event HashMerchant p2;
                    merchant_hash = \<bar>py_hash H (merchant tx)\<bar> mod 1000;
                    p4 = log_event FeatureVector p3
                in if 2 ^ 1024 - 2 ^ 970 \<le> \<bar>hour\<bar> then (p4, Inl OverflowError)
                   else
                     (let x = [amount tx, fl (of_int hour),
                               (if is_international tx then 1 else 0), of_int merchant_hash];
                          p5 = log_event DecisionFunction p4;
                          score_raw = decision_function model x;
                          p6 = log_event Predict p5;
                          pred = predict model x;
                          is_anom = (pred = - 1);
                          score = 1 / (1 + exp (- score_raw));
                          reasons =
                            (if is_anom then [''ML model flagged as outlier (demo model).'']
                             else [])
                      in (p6, Inr (is_anom, score, reasons))))))"

text \<open>
  \<^verbatim>\<open>detect_ml\<close> turns a \<^verbatim>\<open>RuntimeError\<close> into an HTTP 503 whose detail is the
  error's message; any other exception leaves the handler.
\<close>

datatype http_result = Response AnomalyResp | HTTPException nat string | Unhandled exn

definition detect_ml :: "host \<Rightarrow> artifact \<Rightarrow> TxIn \<Rightarrow> process \<Rightarrow> process \<times> http_result" where
  "detect_ml H art tx p =
     (case ml_detector H art tx p of
        (p', Inl (RuntimeError msg)) \<Rightarrow> (p', HTTPException 503 msg)
      | (p', Inl e) \<Rightarrow> (p', Unhandled e)
      | (p', Inr (anom, sc, rs)) \<Rightarrow>
          (p', Response \<lparr>anomaly = anom, score = sc, reasons = rs\<rparr>))"

text \<open>
  A process calls \<^verbatim>\<open>load_ml_model\<close> again and again while the file system changes under
  it: \<open>run_loads\<close> makes one call per artifact state and collects what the calls return;
  \<open>handle_loads\<close> counts the calls at which the handle goes from unloaded to loaded.
\<close>

fun run_loads :: "artifact list \<Rightarrow> process \<Rightarrow> process \<times> (exn + classifier option) list" where
  "run_loads [] p = (p, [])"
| "run_loads (a # as) p =
     (case load_ml_model a p of (p1, r) \<Rightarrow>
        (case run_loads as p1 of (p2, rs) \<Rightarrow> (p2, r # rs)))"

fun handle_loads :: "artifact list \<Rightarrow> process \<Rightarrow> nat" where
  "handle_loads [] p = 0"
| "handle_loads (a # as) p =
     (case load_ml_model a p of (p1, r) \<Rightarrow>
        (if ml_model p = None \<and> ml_model p1 \<noteq> None then 1 else 0) + handle_loads as p1)"

section \<open>The specification's view of the detector and the masker\<close>

text \<open>
  The history values with the defaults applied, and the two thresholds of rules 2 and 3
  as the detector computes them, each product and sum rounded to a double. The seven
  rules of the specification in their fixed order are conditions on the transaction,
  these values and the extracted hour; \<open>selected bs xs\<close> keeps the elements of \<open>xs\<close>
  whose flag in \<open>bs\<close> is set.
\<close>

definition hist_avg :: "user_history \<Rightarrow> real" where
  "hist_avg uh = (case avg_amount uh of None \<Rightarrow> 500 | Some a \<Rightarrow> a)"

definition hist_std :: "user_history \<Rightarrow> real" where
  "hist_std uh =
     (case std_amount uh of
        None \<Rightarrow> max 1 (fl (hist_avg uh * fl (6 / 10))) | Some s \<Rightarrow> s)"

definition hist_med :: "user_history \<Rightarrow> real" where
  "hist_med uh = (case median_amount uh of None \<Rightarrow> hist_avg uh | Some m \<Rightarrow> m)"

definition hist_merchants :: "user_history \<Rightarrow> string list" where
  "hist_merchants uh = (case merchants uh of None \<Rightarrow> [] | Some ms \<Rightarrow> ms)"

definition hist_today :: "user_history \<Rightarrow> int" where
  "hist_today uh = (case transactions_today uh of None \<Rightarrow> 0 | Some n \<Rightarrow> n)"

definition median_threshold :: "user_history \<Rightarrow> real" where
  "median_threshold uh = fl (hist_med uh * 3)"

definition variance_threshold :: "user_history \<Rightarrow> real" where
  "variance_threshold uh = fl (hist_avg uh + fl (3 * hist_std uh))"

definition spec_reasons :: "string list" where
  "spec_reasons =
     [''Very large transaction amount'',
      ''High compared to user's typical transaction'',
      ''Amount is far outside typical variance'',
      ''Transaction at unusual hour'',
      ''Merchant is new/unfamiliar'',
      ''International high-value transaction'',
      ''Unusually high transaction frequency today'']"

definition spec_rules :: "TxIn \<Rightarrow> user_history \<Rightarrow> int \<Rightarrow> bool list" where
  "spec_rules tx uh hour =
     [amount tx > 20000,
      amount tx > median_threshold uh,
      amount tx > variance_threshold uh,
      hour < 6 \<or> hour > 23,
      merchant tx \<notin> set (hist_merchants uh),
      is_international tx \<and> amount tx > 1000,
      hist_today uh > 10]"

definition rule_count :: "TxIn \<Rightarrow> user_history \<Rightarrow> int \<Rightarrow> nat" where
  "rule_count tx uh hour = length (filter id (spec_rules tx uh hour))"

definition selected :: "bool list \<Rightarrow> 'a list \<Rightarrow> 'a list" where
  "selected bs xs = map snd (filter fst (zip bs xs))"

text \<open>
  The masker as the specification words it: the text is cut into its maximal runs of
  digits and the characters between them, and every run of 8 or more digits is replaced
  by the token.
\<close>

datatype segment = DigitRun string | Plain char

function segments :: "string \<Rightarrow> segment list" where
  "segments [] = []"
| "segments (c # cs) =
     (if is_digit c
      then DigitRun (takeWhile is_digit (c # cs)) # segments (dropWhile is_digit (c # cs))
      else Plain c # segments cs)"
  by pat_completeness auto
termination
proof (relation "measure length")
  show "wf (measure length)" by simp
next
  fix c :: char and cs :: string
  assume "is_digit c"
  then have "length (dropWhile is_digit (c # cs)) \<le> length cs"
    by (simp add: length_dropWhile_le)
  then show "(dropWhile is_digit (c # cs), c # cs) \<in> measure length" by simp
next
  fix c :: char and cs :: string
  show "(cs, c # cs) \<in> measure length" by simp
qed

fun segment_text :: "segment \<Rightarrow> string" where
  "segment_text (DigitRun ds) = ds"
| "segment_text (Plain c) = [c]"

fun maximal_runs :: "segment list \<Rightarrow> bool" where
  "maximal_runs [] = True"
| "maximal_runs (DigitRun ds # ss) =
     (ds \<noteq> [] \<and> list_all is_digit ds
      \<and> (case ss of DigitRun ds' # ss' \<Rightarrow> False | _ \<Rightarrow> True)
      \<and> maximal_runs ss)"
| "maximal_runs (Plain c # ss) = (\<not> is_digit c \<and> maximal_runs ss)"

fun mask_segment :: "segment \<Rightarrow> string" where
  "mask_segment (DigitRun ds) = (if 8 \<le> length ds then ''[MASKED_NUMBER]'' else ds)"
| "mask_segment (Plain c) = [c]"

definition spec_mask :: "string \<Rightarrow> string" where
  "spec_mask t = concat (map mask_segment (segments t))"

text \<open>No position of the text starts a run of 8 or more digits.\<close>

fun no_long_digit_run :: "string \<Rightarrow> bool" where
  "no_long_digit_run [] = True"
| "no_long_digit_run (c # cs) =
     (length (takeWhile is_digit (c # cs)) < 8 \<and> no_long_digit_run cs)"

section \<open>Test doubles\<close>

text \<open>
  A host with a fixed clock whose ISO parser knows the timestamps of a table and rejects
  every other string, and whose conversion of strings to integers knows no numeral (it is
  only applied to words); a classifier that answers every feature vector with the same
  margin and label; a transaction with the fields the examples vary.
\<close>

definition table_host :: "(string \<times> int) list \<Rightarrow> int \<Rightarrow> host" where
  "table_host tab now =
     \<lparr>fromisoformat_hour = map_of tab, utcnow_hour = now, str_to_int = (\<lambda>s. None),
      py_hash = (\<lambda>s. 0)\<rparr>"

definition constant_classifier :: "real \<Rightarrow> int \<Rightarrow> classifier" where
  "constant_classifier margin label =
     \<lparr>decision_function = (\<lambda>x. margin), predict = (\<lambda>x. label)\<rparr>"

definition sample_tx :: "real \<Rightarrow> string \<Rightarrow> string \<Rightarrow> bool \<Rightarrow> (string \<rightharpoonup> pyval) \<Rightarrow> TxIn" where
  "sample_tx a ts m intl md =
     \<lparr>userId = ''u1'', amount = a, timestamp = ts, merchant = m, merchant_category = [],
      is_international = intl, currency = ''INR'', meta = md\<rparr>"

definition sample_history :: "real \<Rightarrow> real \<Rightarrow> real \<Rightarrow> user_history" where
  "sample_history avg med std =
     \<lparr>avg_amount = Some avg, median_amount = Some med, std_amount = Some std,
      transactions_today = Some 2, merchants = Some [''Zomato'', ''SBI Card'', ''Amazon''],
      country = Some ''IN'', timezone_offset_hours = Some (11 / 2)\<rparr>"

section \<open>Properties of the rounding\<close>

lemma round_even_near:
  assumes "\<bar>x - of_int m\<bar> < 1 / 2"
  shows "round_even x = m"
proof (cases "of_int m \<le> x")
  case True
  with assms have "\<lfloor>x\<rfloor> = m" by (intro floor_unique) (auto simp: abs_if split: if_splits)
  with assms True show ?thesis by (simp add: round_even_def)
next
  case False
  with assms have f: "\<lfloor>x\<rfloor> = m - 1"
    by (intro floor_unique) (auto simp: abs_if split: if_splits)
  with assms False show ?thesis by (simp add: round_even_def)
qed

lemma round_even_tie:
  assumes "x = of_int m + 1 / 2"
  shows "round_even x = (if even m then m else m + 1)"
proof -
  have "\<lfloor>x\<rfloor> = m" unfolding assms by (intro floor_unique) auto
  then show ?thesis by (simp add: round_even_def assms)
qed

text \<open>The exponent of the unit in the last place, from the binade of the argument.\<close>

lemma ulp_exp_eq:
  assumes "2 powi (e + 52) \<le> \<bar>x\<bar>" and "\<bar>x\<bar> < 2 powi (e + 53)" and "- 1074 \<le> e"
  shows "ulp_exp x = e"
proof -
  have "(0::real) < 2 powi (e + 52)" by simp
  with assms(1) have pos: "0 < \<bar>x\<bar>" by linarith
  have a: "(2::real) powr of_int (e + 52) = 2 powi (e + 52)"
    by (rule powr_real_of_int') simp_all
  have b: "(2::real) powr real_of_int (e + 53) = 2 powi (e + 53)"
    by (rule powr_real_of_int') simp_all
  have d0: "\<bar>x\<bar> < 2 powr real_of_int (e + 53)" unfolding b by (rule assms(2))
  have c: "2 powr real_of_int (e + 52) \<le> \<bar>x\<bar>" unfolding a by (rule assms(1))
  have d: "\<bar>x\<bar> < 2 powr real_of_int (e + 52 + 1)" using d0 by (simp add: add.commute)
  have "\<lfloor>log 2 \<bar>x\<bar>\<rfloor> = e + 52"
    by (rule floor_log_eq_powr_iff [THEN iffD2, OF pos _ conjI [OF c d]]) simp
  then show ?thesis using assms(3) by (simp add: ulp_exp_def)
qed

text \<open>
  Rounding a number of a known binade: to the nearest multiple of the unit in the last
  place, and from the midpoint of two neighbours to the one with the even multiplier.
\<close>

lemma fl_near:
  assumes "2 powi (e + 52) \<le> \<bar>x\<bar>" and "\<bar>x\<bar> < 2 powi (e + 53)" and "- 1074 \<le> e"
    and "\<bar>x / 2 powi e - of_int m\<bar> < 1 / 2"
  shows "fl x = of_int m * 2 powi e"
proof -
  have "(0::real) < 2 powi (e + 52)" by simp
  with assms(1) have "0 < \<bar>x\<bar>" by linarith
  then have "x \<noteq> 0" by simp
  then show ?thesis
    by (simp add: fl_def ulp_exp_eq [OF assms(1-3)] round_even_near [OF assms(4)])
qed

lemma fl_tie:
  assumes "2 powi (e + 52) \<le> \<bar>x\<bar>" and "\<bar>x\<bar> < 2 powi (e + 53)" and "- 1074 \<le> e"
    and "x / 2 powi e = of_int m + 1 / 2"
  shows "fl x = of_int (if even m then m else m + 1) * 2 powi e"
proof -
  have "(0::real) < 2 powi (e + 52)" by simp
  with assms(1) have "0 < \<bar>x\<bar>" by linarith
  then have "x \<noteq> 0" by simp
  then show ?thesis
    by (simp add: fl_def ulp_exp_eq [OF assms(1-3)] round_even_tie [OF assms(4)])
qed

text \<open>The thresholds of the stub history are computed without rounding error.\<close>

lemma fl_1050: "fl 1050 = 1050"
  using fl_near [of "- 42" 1050 "1050 * 2 ^ 42"] by (simp add: power_int_minus)

lemma fl_1200: "fl 1200 = 1200"
  using fl_near [of "- 42" 1200 "1200 * 2 ^ 42"] by (simp add: power_int_minus)

lemma fl_1800: "fl 1800 = 1800"
  using fl_near [of "- 42" 1800 "1800 * 2 ^ 42"] by (simp add: power_int_minus)

text \<open>
  The doubles of the literals 815.11, 300.07 and 171.68, and the sum
  \<^verbatim>\<open>300.07 + 3 * 171.68\<close> as doubles compute it: the product and the sum are both
  midpoints and both round down, to the double just below 815.11.
\<close>

lemma float_literal_815_11: "float_literal 81511 2 = 7169783383331963 / 2 ^ 43"
  using fl_near [of "- 43" "81511 / 100" 7169783383331963]
  by (simp add: float_literal_def power_int_minus)

lemma float_literal_300_07: "float_literal 30007 2 = 5278887266347909 / 2 ^ 44"
  using fl_near [of "- 44" "30007 / 100" 5278887266347909]
  by (simp add: float_literal_def power_int_minus)

lemma float_literal_171_68: "float_literal 17168 2 = 6040453000210678 / 2 ^ 45"
  using fl_near [of "- 45" "17168 / 100" 6040453000210678]
  by (simp add: float_literal_def power_int_minus)

lemma fl_product_example:
  "fl (3 * (6040453000210678 / 2 ^ 45)) = 4530339750158008 / 2 ^ 43"
  using fl_tie [of "- 43" "3 * (6040453000210678 / 2 ^ 45)" 4530339750158008]
  by (simp add: power_int_minus)

lemma fl_sum_example:
  "fl (5278887266347909 / 2 ^ 44 + 4530339750158008 / 2 ^ 43) = 7169783383331962 / 2 ^ 43"
  using fl_tie [of "- 43" "5278887266347909 / 2 ^ 44 + 4530339750158008 / 2 ^ 43"
      7169783383331962]
  by (simp add: power_int_minus)

lemma variance_threshold_example:
  "fl (float_literal 30007 2 + fl (3 * float_literal 17168 2)) = 7169783383331962 / 2 ^ 43"
  unfolding float_literal_300_07 float_literal_171_68 fl_product_example
  by (rule fl_sum_example)

section \<open>Properties of the rule-based detector\<close>

lemma selected_Cons: "selected (b # bs) (x # xs) = (if b then [x] else []) @ selected bs xs"
  by (simp add: selected_def)

lemma selected_Nil: "selected [] xs = []"
  by (simp add: selected_def)

lemma length_selected:
  "length bs = length xs \<Longrightarrow> length (selected bs xs) = length (filter id bs)"
  unfolding selected_def
  by (induction bs xs rule: list_induct2) auto

lemma subseq_selected: "subseq (selected bs xs) xs"
  unfolding selected_def
  by (induction bs arbitrary: xs) (auto simp: zip_Cons1 split: list.splits)

lemma distinct_spec_reasons: "distinct spec_reasons"
  by (simp add: spec_reasons_def)

lemma length_spec_rules: "length (spec_rules tx uh hour) = length spec_reasons"
  by (simp add: spec_rules_def spec_reasons_def)

lemma length_selected_rules:
  "length (selected (spec_rules tx uh hour) spec_reasons) = rule_count tx uh hour"
  by (simp add: rule_count_def length_selected length_spec_rules)

lemma if_append_reason:
  "(if c then append_reason r f else f) =
     f\<lparr>fr_reasons := fr_reasons f @ (if c then [r] else [])\<rparr>"
  by (simp add: append_reason_def)

text \<open>
  When the hour is extracted, the frame at the end of the detector holds the two arguments
  it started with, and its reasons are the texts of the rules that hold, in the order of
  the rules.
\<close>

lemma frame_Inr:
  assumes "parse_iso_hour H (timestamp tx) (meta tx) = Inr hour"
  shows "rule_based_check_frame H tx uh =
           (\<lparr>fr_tx = tx, fr_user_history = uh,
             fr_reasons = selected (spec_rules tx uh hour) spec_reasons\<rparr>,
            Inr (0 < length (selected (spec_rules tx uh hour) spec_reasons),
                 min 1 (real (length (selected (spec_rules tx uh hour) spec_reasons)) / 5),
                 selected (spec_rules tx uh hour) spec_reasons))"
  using assms
  by (simp add: rule_based_check_frame_def Let_def if_append_reason spec_rules_def
      spec_reasons_def selected_Cons selected_Nil hist_avg_def hist_std_def hist_med_def
      hist_merchants_def hist_today_def median_threshold_def variance_threshold_def
      del: length_append length_greater_0_conv append_is_Nil_conv
      split del: if_split cong del: option.case_cong_weak)

lemma frame_Inl:
  assumes "parse_iso_hour H (timestamp tx) (meta tx) = Inl e"
  shows "rule_based_check_frame H tx uh =
           (\<lparr>fr_tx = tx, fr_user_history = uh, fr_reasons = []\<rparr>, Inl e)"
  using assms by (simp add: rule_based_check_frame_def Let_def)

lemma rule_based_check_Inr:
  assumes "parse_iso_hour H (timestamp tx) (meta tx) = Inr hour"
  shows "rule_based_check H tx uh =
           Inr (0 < rule_count tx uh hour, min 1 (real (rule_count tx uh hour) / 5),
                selected (spec_rules tx uh hour) spec_reasons)"
  by (simp add: rule_based_check_def frame_Inr [OF assms] length_selected_rules
      del: length_greater_0_conv)

lemma rule_based_check_Inl:
  assumes "parse_iso_hour H (timestamp tx) (meta tx) = Inl e"
  shows "rule_based_check H tx uh = Inl e"
  by (simp add: rule_based_check_def frame_Inl [OF assms])

lemma rule_based_check_frame_args:
  "fr_tx (fst (rule_based_check_frame H tx uh)) = tx
   \<and> fr_user_history (fst (rule_based_check_frame H tx uh)) = uh"
  by (cases "parse_iso_hour H (timestamp tx) (meta tx)") (simp_all add: frame_Inl frame_Inr)



text \<open>
  Claim C2, as the code has it. A transaction with amount at most 20000, at most the
  product \<^verbatim>\<open>med * 3\<close> and at most the sum \<^verbatim>\<open>avg + 3 * std\<close> as the detector computes
  them in double arithmetic, with an extracted hour from 6 to 23, a merchant the history
  knows, that is not international above 1000, on a day with at most 10 transactions so
  far, is answered with \<open>anomaly = False\<close>, \<open>score = 0\<close> and no reasons.
\<close>

theorem rule_based_check_normal:
  assumes "parse_iso_hour H (timestamp tx) (meta tx) = Inr hour"
    and "6 \<le> hour" and "hour \<le> 23"
    and "amount tx \<le> 20000"
    and "amount tx \<le> median_threshold uh"
    and "amount tx \<le> variance_threshold uh"
    and "merchant tx \<in> set (hist_merchants uh)"
    and "\<not> (is_international tx \<and> amount tx > 1000)"
    and "hist_today uh \<le> 10"
  shows "rule_based_check H tx uh = Inr (False, 0, [])"
proof -
  have "spec_rules tx uh hour = replicate 7 False"
    using assms(2-) by (auto simp: spec_rules_def numeral_eq_Suc)
  then show ?thesis
    by (simp add: rule_based_check_Inr [OF assms(1)] rule_count_def selected_def
        spec_reasons_def numeral_eq_Suc)
qed

theorem rule_based_check_normal_witness:
  "parse_iso_hour (table_host [] 12) [] Map.empty = Inr 12
   \<and> median_threshold (get_user_history_stub ''u1'') = 1050
   \<and> variance_threshold (get_user_history_stub ''u1'') = 1800
   \<and> ''Zomato'' \<in> set (hist_merchants (get_user_history_stub ''u1''))
   \<and> hist_today (get_user_history_stub ''u1'') = 2
   \<and> rule_based_check (table_host [] 12) (sample_tx 900 [] ''Zomato'' False Map.empty)
       (get_user_history_stub ''u1'') = Inr (False, 0, [])"
  using rule_based_check_normal
    [of "table_host [] 12" "sample_tx 900 [] ''Zomato'' False Map.empty" 12
        "get_user_history_stub ''u1''"]
  by (simp add: table_host_def sample_tx_def parse_iso_hour_def meta_hour_def
      get_user_history_stub_def hist_avg_def hist_std_def hist_med_def hist_merchants_def
      hist_today_def median_threshold_def variance_threshold_def fl_1050 fl_1200 fl_1800)

text \<open>
  Claim C2 as stated, with the thresholds three times the median and the average plus
  three standard deviations taken exactly, fails through rounding. For the amount 815.11
  and a history with average 300.07, standard deviation 171.68 and median 350 every
  hypothesis of the claim holds, the amount being equal to the exact sum; the detector
  compares it with the rounded sum, which is smaller, and reports rule 3.
\<close>

theorem rule_based_check_rounding_counterexample:
  "parse_iso_hour (table_host [] 12) [] Map.empty = Inr 12
   \<and> float_literal 81511 2 \<le> 20000
   \<and> float_literal 81511 2
       \<le> 3 * hist_med (sample_history (float_literal 30007 2) 350 (float_literal 17168 2))
   \<and> float_literal 81511 2
       \<le> hist_avg (sample_history (float_literal 30007 2) 350 (float_literal 17168 2))
         + 3 * hist_std (sample_history (float_literal 30007 2) 350 (float_literal 17168 2))
   \<and> ''Zomato''
       \<in> set (hist_merchants
                (sample_history (float_literal 30007 2) 350 (float_literal 17168 2)))
   \<and> hist_today (sample_history (float_literal 30007 2) 350 (float_literal 17168 2)) \<le> 10
   \<and> rule_based_check (table_host [] 12)
       (sample_tx (float_literal 81511 2) [] ''Zomato'' False Map.empty)
       (sample_history (float_literal 30007 2) 350 (float_literal 17168 2))
     = Inr (True, 1 / 5, [''Amount is far outside typical variance''])"
proof -
  let ?uh = "sample_history (float_literal 30007 2) 350 (float_literal 17168 2)"
  let ?tx = "sample_tx (float_literal 81511 2) [] ''Zomato'' False Map.empty"
  have h: "parse_iso_hour (table_host [] 12) [] Map.empty = Inr 12"
    by (simp add: parse_iso_hour_def meta_hour_def table_host_def)
  have a: "float_literal 81511 2 \<le> 20000"
    by (simp add: float_literal_815_11)
  have m: "float_literal 81511 2 \<le> 3 * hist_med ?uh"
    by (simp add: float_literal_815_11 hist_med_def sample_history_def)
  have v: "float_literal 81511 2 \<le> hist_avg ?uh + 3 * hist_std ?uh"
    by (simp add: float_literal_815_11 float_literal_300_07 float_literal_171_68
        hist_avg_def hist_std_def sample_history_def)
  have k: "''Zomato'' \<in> set (hist_merchants ?uh)"
    by (simp add: hist_merchants_def sample_history_def)
  have t: "hist_today ?uh \<le> 10"
    by (simp add: hist_today_def sample_history_def)
  have mt: "median_threshold ?uh = 1050"
    by (simp add: median_threshold_def hist_med_def sample_history_def fl_1050)
  have vt: "variance_threshold ?uh = 7169783383331962 / 2 ^ 43"
    by (simp add: variance_threshold_def hist_avg_def hist_std_def sample_history_def
        variance_threshold_example)
  have "parse_iso_hour (table_host [] 12) (timestamp ?tx) (meta ?tx) = Inr 12"
    using h by (simp add: sample_tx_def)
  moreover have hm: "hist_merchants ?uh = [''Zomato'', ''SBI Card'', ''Amazon'']"
    by (simp add: hist_merchants_def sample_history_def)
  moreover have ht: "hist_today ?uh = 2"
    by (simp add: hist_today_def sample_history_def)
  ultimately have r: "rule_based_check (table_host [] 12) ?tx ?uh
      = Inr (True, 1 / 5, [''Amount is far outside typical variance''])"
    by (simp add: rule_based_check_Inr rule_count_def spec_rules_def spec_reasons_def
        selected_def mt vt sample_tx_def float_literal_815_11)
  from h a m v k t r show ?thesis by blast
qed

text \<open>
  Claim C5. The reasons the detector returns are the texts of the rules that hold, taken
  in the fixed order of the seven rules: they form a subsequence of the seven texts, and no
  text occurs twice.
\<close>

theorem rule_based_check_order:
  assumes "rule_based_check H tx uh = Inr (a, s, rs)"
  shows "subseq rs spec_reasons \<and> distinct rs \<and>
         (\<exists>hour. parse_iso_hour H (timestamp tx) (meta tx) = Inr hour \<and>
                 rs = selected (spec_rules tx uh hour) spec_reasons)"
proof (cases "parse_iso_hour H (timestamp tx) (meta tx)")
  case (Inl e)
  with assms show ?thesis by (simp add: rule_based_check_Inl)
next
  case (Inr hour)
  with assms have rs: "rs = selected (spec_rules tx uh hour) spec_reasons"
    by (simp add: rule_based_check_Inr)
  have "subseq rs spec_reasons" unfolding rs by (rule subseq_selected)
  moreover from this have "distinct rs"
    using distinct_spec_reasons subseqs_distinctD [of rs spec_reasons] by simp
  ultimately show ?thesis using Inr rs by simp
qed

theorem rule_based_check_order_witness:
  "rule_based_check (table_host [] 3) (sample_tx 2000 [] ''Kiosk'' True Map.empty)
     (get_user_history_stub ''u1'')
   = Inr (True, 1,
          [''High compared to user's typical transaction'',
           ''Amount is far outside typical variance'',
           ''Transaction at unusual hour'',
           ''Merchant is new/unfamiliar'',
           ''International high-value transaction''])
   \<and> subseq
       [''High compared to user's typical transaction'',
        ''Amount is far outside typical variance'',
        ''Transaction at unusual hour'',
        ''Merchant is new/unfamiliar'',
        ''International high-value transaction''] spec_reasons"
proof -
  have r: "rule_based_check (table_host [] 3) (sample_tx 2000 [] ''Kiosk'' True Map.empty)
     (get_user_history_stub ''u1'')
   = Inr (True, 1,
          [''High compared to user's typical transaction'',
           ''Amount is far outside typical variance'',
           ''Transaction at unusual hour'',
           ''Merchant is new/unfamiliar'',
           ''International high-value transaction''])"
    by (simp add: rule_based_check_Inr [where hour = 3] table_host_def sample_tx_def
        parse_iso_hour_def meta_hour_def rule_count_def spec_rules_def spec_reasons_def
        selected_def get_user_history_stub_def hist_avg_def hist_std_def hist_med_def
        hist_merchants_def hist_today_def median_threshold_def variance_threshold_def
        fl_1050 fl_1200 fl_1800)
  from rule_based_check_order [OF r] r show ?thesis by simp
qed

text \<open>
  Claim C9. On every path, raising or returning, the transaction and the history profile
  in the detector's frame at its end are the ones it was called with; after
  \<^verbatim>\<open>detect_rule\<close> the transaction is the one received, and the masked merchant text is
  a separate value computed from it.
\<close>

theorem rule_based_check_frame_inputs:
  "fr_tx (fst (rule_based_check_frame H tx uh)) = tx
   \<and> fr_user_history (fst (rule_based_check_frame H tx uh)) = uh
   \<and> fst (detect_rule_frame H tx) = tx
   \<and> fst (snd (detect_rule_frame H tx)) = mask_personal_data (merchant tx)"
  using rule_based_check_frame_args [of H tx "get_user_history_stub (userId tx)"]
    rule_based_check_frame_args [of H tx uh]
  by (auto simp: detect_rule_frame_def Let_def split: prod.splits sum.splits)

theorem rule_based_check_frame_inputs_witness:
  "merchant (fst (detect_rule_frame (table_host [] 12)
      (sample_tx 900 [] ''Acct 1234567890'' False Map.empty))) = ''Acct 1234567890''"
  using rule_based_check_frame_inputs
    [of "table_host [] 12" "sample_tx 900 [] ''Acct 1234567890'' False Map.empty"]
  by (simp add: sample_tx_def)

section \<open>Properties of the hour extraction\<close>

text \<open>
  What the extraction guarantees: with a library whose parsed hours and clock are within
  0 to 23, a timestamp that parses gives an hour in that range, and so does any timestamp
  when the metadata has no \<open>hour\<close> key.
\<close>

lemma parse_iso_hour_parsed:
  assumes "ts \<noteq> []"
    and "fromisoformat_hour H (if last ts = CHR ''Z'' then butlast ts @ ''+00:00'' else ts) = Some h"
  shows "parse_iso_hour H ts m = Inr h"
  using assms by (simp add: parse_iso_hour_def)

lemma parse_iso_hour_no_meta:
  assumes "m ''hour'' = None"
  shows "parse_iso_hour H ts m =
           Inr (if ts = [] then utcnow_hour H
                else case fromisoformat_hour H
                            (if last ts = CHR ''Z'' then butlast ts @ ''+00:00'' else ts) of
                       Some h \<Rightarrow> h | None \<Rightarrow> utcnow_hour H)"
  using assms by (simp add: parse_iso_hour_def meta_hour_def split: option.split)

lemma parse_iso_hour_in_range:
  assumes "m ''hour'' = None"
    and "0 \<le> utcnow_hour H" and "utcnow_hour H \<le> 23"
    and "\<And>s h. fromisoformat_hour H s = Some h \<Longrightarrow> 0 \<le> h \<and> h \<le> 23"
  shows "\<exists>h. parse_iso_hour H ts m = Inr h \<and> 0 \<le> h \<and> h \<le> 23"
  using assms by (auto simp: parse_iso_hour_no_meta split: option.split)

text \<open>
  Claim C3. The claim is that the extracted hour is always within 0 to 23, so that the
  \<open>hour > 23\<close> branch of rule 4 cannot be taken. With an empty timestamp and the metadata
  \<^verbatim>\<open>{"hour": 99}\<close> the function returns 99, and rule 4 fires through that branch.
\<close>

theorem parse_iso_hour_out_of_range:
  "parse_iso_hour H [] [''hour'' \<mapsto> PyInt 99] = Inr 99
   \<and> rule_based_check H (sample_tx 100 [] ''Zomato'' False [''hour'' \<mapsto> PyInt 99])
       (get_user_history_stub ''u1'') = Inr (True, 1 / 5, [''Transaction at unusual hour''])"
  by (simp add: sample_tx_def parse_iso_hour_def meta_hour_def rule_based_check_Inr
      rule_count_def spec_rules_def spec_reasons_def selected_def get_user_history_stub_def
      hist_avg_def hist_std_def hist_med_def hist_merchants_def hist_today_def
      median_threshold_def variance_threshold_def fl_1050 fl_1200 fl_1800)

text \<open>
  Claim C4. The claim is that the extraction never raises. With an empty timestamp and the
  metadata \<^verbatim>\<open>{"hour": null}\<close> the conversion \<^verbatim>\<open>int(None)\<close> raises \<^verbatim>\<open>TypeError\<close>; with
  a timestamp that does not parse and a metadata hour that is not a numeral, the
  conversion in the exception handler raises \<^verbatim>\<open>ValueError\<close>.
\<close>

theorem parse_iso_hour_raises:
  "parse_iso_hour H [] [''hour'' \<mapsto> PyNone] = Inl TypeError
   \<and> parse_iso_hour (table_host [] 12) ''not-a-date'' [''hour'' \<mapsto> PyStr ''noon'']
       = Inl ValueError"
  by (simp add: table_host_def parse_iso_hour_def meta_hour_def)

text \<open>
  What holds of rule 5: when the history has no merchant list and the hour is extracted,
  the detector reports an anomaly with a score of at least one fifth and the reason of
  rule 5.
\<close>

lemma rule_based_check_no_merchants:
  assumes "merchants uh = None"
    and "parse_iso_hour H (timestamp tx) (meta tx) = Inr hour"
  shows "\<exists>s rs. rule_based_check H tx uh = Inr (True, s, rs) \<and> 1 / 5 \<le> s
           \<and> ''Merchant is new/unfamiliar'' \<in> set rs"
proof -
  have m: "merchant tx \<notin> set (hist_merchants uh)"
    using assms(1) by (simp add: hist_merchants_def)
  have k: "1 \<le> rule_count tx uh hour"
    using m by (simp add: rule_count_def spec_rules_def)
  have "''Merchant is new/unfamiliar'' \<in> set (selected (spec_rules tx uh hour) spec_reasons)"
    using m by (simp add: spec_rules_def spec_reasons_def selected_Cons selected_Nil)
  moreover have "1 / 5 \<le> min 1 (real (rule_count tx uh hour) / 5)"
    using k by simp
  moreover have "0 < rule_count tx uh hour" using k by simp
  ultimately show ?thesis
    by (simp add: rule_based_check_Inr [OF assms(2)])
qed

text \<open>
  Claim C10. The claim is that with no merchant list in the history the detector returns
  an anomaly whatever the other fields of the transaction are. For a transaction with an
  empty timestamp and the metadata \<^verbatim>\<open>{"hour": null}\<close> the detector returns nothing: the
  \<^verbatim>\<open>TypeError\<close> of the hour extraction leaves it before any rule is evaluated.
\<close>

theorem rule_based_check_raises:
  "rule_based_check H (sample_tx 100 [] ''Zomato'' False [''hour'' \<mapsto> PyNone])
     \<lparr>avg_amount = Some 600, median_amount = Some 350, std_amount = Some 400,
      transactions_today = Some 2, merchants = None, country = Some ''IN'',
      timezone_offset_hours = Some (11 / 2)\<rparr>
   = Inl TypeError"
  by (simp add: sample_tx_def rule_based_check_Inl parse_iso_hour_def meta_hour_def)

section \<open>Properties of the masker\<close>

lemma concat_segments: "concat (map segment_text (segments t)) = t"
  by (induction t rule: segments.induct) simp_all

lemma takeWhile_dropWhile_Nil: "takeWhile P (dropWhile P xs) = []"
  by (induction xs) auto

lemma maximal_runs_segments: "maximal_runs (segments t)"
proof (induction t rule: segments.induct)
  case 1
  then show ?case by simp
next
  case (2 c cs)
  show ?case
  proof (cases "is_digit c")
    case False
    with 2 show ?thesis by simp
  next
    case True
    let ?rest = "dropWhile is_digit (c # cs)"
    have "case segments ?rest of DigitRun ds' # ss' \<Rightarrow> False | _ \<Rightarrow> True"
    proof (cases ?rest)
      case Nil
      then show ?thesis by simp
    next
      case (Cons d ds)
      then have "\<not> is_digit d" using hd_dropWhile [of is_digit "c # cs"] by simp
      with Cons show ?thesis by simp
    qed
    moreover have "list_all is_digit (takeWhile is_digit (c # cs))"
      by (auto simp: list_all_iff dest: set_takeWhileD)
    ultimately show ?thesis using True 2(1) by simp
  qed
qed

lemma mask_short_run:
  "\<forall>d\<in>set ds. is_digit d \<Longrightarrow> length ds + length (takeWhile is_digit rest) < 8 \<Longrightarrow>
   mask_personal_data (ds @ rest) = ds @ mask_personal_data rest"
proof (induction ds)
  case Nil
  then show ?case by simp
next
  case (Cons d ds)
  then have "takeWhile is_digit (ds @ rest) = ds @ takeWhile is_digit rest"
    by (simp add: takeWhile_append2)
  with Cons show ?case by simp
qed

lemma mask_personal_data_segments: "mask_personal_data t = spec_mask t"
proof (induction t rule: segments.induct)
  case 1
  then show ?case by (simp add: spec_mask_def)
next
  case (2 c cs)
  show ?case
  proof (cases "is_digit c")
    case False
    with 2 show ?thesis by (simp add: spec_mask_def)
  next
    case True
    let ?run = "takeWhile is_digit (c # cs)" and ?rest = "dropWhile is_digit (c # cs)"
    have IH: "mask_personal_data ?rest = spec_mask ?rest" using 2(1) True by simp
    show ?thesis
    proof (cases "8 \<le> length ?run")
      case long: True
      then show ?thesis using True IH by (simp add: spec_mask_def)
    next
      case short: False
      have split: "c # cs = ?run @ ?rest" by simp
      have "mask_personal_data (?run @ ?rest) = ?run @ mask_personal_data ?rest"
        using short by (intro mask_short_run) (auto simp: takeWhile_dropWhile_Nil dest: set_takeWhileD)
      then have "mask_personal_data (c # cs) = ?run @ mask_personal_data ?rest"
        using split by metis
      then show ?thesis using True short IH by (simp add: spec_mask_def)
    qed
  qed
qed

lemma takeWhile_token: "takeWhile is_digit (''[MASKED_NUMBER]'' @ xs) = []"
  by (simp add: is_digit_def)

lemma no_long_digit_run_token:
  "no_long_digit_run (''[MASKED_NUMBER]'' @ xs) = no_long_digit_run xs"
  by (simp add: is_digit_def)

lemma lead_mask:
  "length (takeWhile is_digit (mask_personal_data t)) =
     (if length (takeWhile is_digit t) < 8 then length (takeWhile is_digit t) else 0)"
proof (induction t rule: mask_personal_data.induct)
  case 1
  then show ?case by simp
next
  case (2 c cs)
  show ?case
  proof (cases "8 \<le> length (takeWhile is_digit (c # cs))")
    case True
    then have "mask_personal_data (c # cs) =
        ''[MASKED_NUMBER]'' @ mask_personal_data (dropWhile is_digit (c # cs))"
      by simp
    then show ?thesis using True by (simp only: takeWhile_token) simp
  next
    case False
    then have m: "mask_personal_data (c # cs) = c # mask_personal_data cs" by simp
    from False 2(2) have
      "length (takeWhile is_digit (mask_personal_data cs)) =
         (if length (takeWhile is_digit cs) < 8 then length (takeWhile is_digit cs) else 0)"
      by simp
    then show ?thesis using False unfolding m by (cases "is_digit c") auto
  qed
qed

lemma no_long_digit_run_mask: "no_long_digit_run (mask_personal_data t)"
proof (induction t rule: mask_personal_data.induct)
  case 1
  then show ?case by simp
next
  case (2 c cs)
  show ?case
  proof (cases "8 \<le> length (takeWhile is_digit (c # cs))")
    case True
    then have "mask_personal_data (c # cs) =
        ''[MASKED_NUMBER]'' @ mask_personal_data (dropWhile is_digit (c # cs))"
      by simp
    moreover have "no_long_digit_run (mask_personal_data (dropWhile is_digit (c # cs)))"
      using True 2(1) by simp
    ultimately show ?thesis by (simp only: no_long_digit_run_token)
  next
    case False
    then have m: "mask_personal_data (c # cs) = c # mask_personal_data cs" by simp
    from False 2(2) have "no_long_digit_run (mask_personal_data cs)" by simp
    moreover have "length (takeWhile is_digit (c # mask_personal_data cs)) < 8"
      using False by (cases "is_digit c") (auto simp: lead_mask split: if_splits)
    ultimately show ?thesis unfolding m by simp
  qed
qed

lemma mask_identity: "no_long_digit_run t \<Longrightarrow> mask_personal_data t = t"
  by (induction t) auto

text \<open>
  \<open>no_long_digit_run\<close> says what its name says: the text has no block of 8 or more
  consecutive digits anywhere.
\<close>

lemma no_long_digit_run_iff:
  "no_long_digit_run t \<longleftrightarrow>
     \<not> (\<exists>us ds vs. t = us @ ds @ vs \<and> 8 \<le> length ds \<and> (\<forall>d\<in>set ds. is_digit d))"
proof
  assume nl: "no_long_digit_run t"
  show "\<not> (\<exists>us ds vs. t = us @ ds @ vs \<and> 8 \<le> length ds \<and> (\<forall>d\<in>set ds. is_digit d))"
  proof
    assume "\<exists>us ds vs. t = us @ ds @ vs \<and> 8 \<le> length ds \<and> (\<forall>d\<in>set ds. is_digit d)"
    then obtain us ds vs where t: "t = us @ ds @ vs" and len: "8 \<le> length ds"
      and dig: "\<forall>d\<in>set ds. is_digit d" by blast
    from nl show False unfolding t
    proof (induction us)
      case Nil
      have "takeWhile is_digit (ds @ vs) = ds @ takeWhile is_digit vs"
        using dig by (simp add: takeWhile_append2)
      with Nil len show ?case by (cases "ds @ vs") auto
    next
      case (Cons u us)
      then show ?case by simp
    qed
  qed
next
  assume ne: "\<not> (\<exists>us ds vs. t = us @ ds @ vs \<and> 8 \<le> length ds \<and> (\<forall>d\<in>set ds. is_digit d))"
  then show "no_long_digit_run t"
  proof (induction t)
    case Nil
    then show ?case by simp
  next
    case (Cons c cs)
    have "\<not> 8 \<le> length (takeWhile is_digit (c # cs))"
    proof
      assume "8 \<le> length (takeWhile is_digit (c # cs))"
      moreover have "c # cs = [] @ takeWhile is_digit (c # cs) @ dropWhile is_digit (c # cs)"
        by simp
      moreover have "\<forall>d\<in>set (takeWhile is_digit (c # cs)). is_digit d"
        by (auto dest: set_takeWhileD)
      ultimately show False using Cons.prems by blast
    qed
    moreover have "no_long_digit_run cs"
    proof (rule Cons.IH, rule notI)
      assume "\<exists>us ds vs. cs = us @ ds @ vs \<and> 8 \<le> length ds \<and> (\<forall>d\<in>set ds. is_digit d)"
      then obtain us ds vs where
        "cs = us @ ds @ vs" "8 \<le> length ds" "\<forall>d\<in>set ds. is_digit d"
        by blast
      then have
        "c # cs = (c # us) @ ds @ vs \<and> 8 \<le> length ds \<and> (\<forall>d\<in>set ds. is_digit d)"
        by simp
      then show False using Cons.prems by blast
    qed
    ultimately show ?case by simp
  qed
qed

text \<open>
  Claim C6. The masker is a function of its argument alone. Its result is the text with
  every maximal run of 8 or more digits replaced by the token, where the runs are those of
  \<open>segments\<close>: they concatenate to the text, every digit run is non-empty, all digits, and
  not followed by another digit run. Masking a masked text changes nothing, and a text
  with no run of 8 or more digits is returned as it is.
\<close>

theorem mask_personal_data_correct:
  "mask_personal_data t = spec_mask t
   \<and> concat (map segment_text (segments t)) = t
   \<and> maximal_runs (segments t)
   \<and> mask_personal_data (mask_personal_data t) = mask_personal_data t
   \<and> (no_long_digit_run t \<longrightarrow> mask_personal_data t = t)"
  using mask_personal_data_segments [of t] mask_identity [OF no_long_digit_run_mask, of t]
    mask_identity [of t] concat_segments [of t] maximal_runs_segments [of t]
  by simp

theorem mask_personal_data_correct_witness:
  "mask_personal_data ''Card ending 123456789012'' = ''Card ending [MASKED_NUMBER]''
   \<and> no_long_digit_run ''Card 1234567''
   \<and> mask_personal_data ''Card 1234567'' = ''Card 1234567''"
  using mask_personal_data_correct [of "''Card ending 123456789012''"]
    mask_personal_data_correct [of "''Card 1234567''"]
  by (simp add: spec_mask_def is_digit_def)

section \<open>Properties of the statistical detector\<close>

lemma load_ml_model_cached:
  "ml_model p = Some m \<Longrightarrow> load_ml_model art p = (p, Inr (Some m))"
  by (simp add: load_ml_model_def)

lemma run_loads_cached:
  "ml_model p = Some m \<Longrightarrow> run_loads arts p = (p, replicate (length arts) (Inr (Some m)))"
  by (induction arts) (simp_all add: load_ml_model_cached)

lemma handle_loads_cached: "ml_model p = Some m \<Longrightarrow> handle_loads arts p = 0"
  by (induction arts) (simp_all add: load_ml_model_cached)

lemma handle_loads_le: "handle_loads arts p \<le> 1"
proof (induction arts arbitrary: p)
  case Nil
  then show ?case by simp
next
  case (Cons a as)
  obtain p1 r where l: "load_ml_model a p = (p1, r)" by (cases "load_ml_model a p")
  show ?case
  proof (cases "ml_model p = None \<and> ml_model p1 \<noteq> None")
    case True
    then obtain m where "ml_model p1 = Some m" by auto
    then have "handle_loads as p1 = 0" by (rule handle_loads_cached)
    with l True show ?thesis by simp
  next
    case False
    with l Cons.IH [of p1] show ?thesis by auto
  qed
qed

text \<open>
  Claim C7, as the code has it. When the artifact is absent and no handle is cached, the
  detector raises \<^verbatim>\<open>RuntimeError\<close>, which \<^verbatim>\<open>detect_ml\<close> answers with status 503, and
  the only operation performed is the test whether the path exists: no hour is extracted,
  no merchant hashed, no feature vector built.
\<close>

theorem ml_detector_unavailable:
  assumes "ml_model p = None"
  shows "ml_detector H Absent tx p =
           (p\<lparr>trace := trace p @ [PathExists]\<rparr>,
            Inl (RuntimeError ''ML model not found on server.''))
         \<and> detect_ml H Absent tx p =
           (p\<lparr>trace := trace p @ [PathExists]\<rparr>,
            HTTPException 503 ''ML model not found on server.'')"
  using assms by (simp add: detect_ml_def ml_detector_def load_ml_model_def log_event_def)

theorem ml_detector_unavailable_witness:
  "ml_model \<lparr>ml_model = None, trace = []\<rparr> = None
   \<and> detect_ml (table_host [] 12) Absent (sample_tx 100 [] ''Zomato'' False Map.empty)
       \<lparr>ml_model = None, trace = []\<rparr> =
       (\<lparr>ml_model = None, trace = [PathExists]\<rparr>,
        HTTPException 503 ''ML model not found on server.'')"
  using ml_detector_unavailable
    [of "\<lparr>ml_model = None, trace = []\<rparr>" "table_host [] 12"
        "sample_tx 100 [] ''Zomato'' False Map.empty"]
  by simp

text \<open>
  Claim C7 as stated fails when a handle was cached before the artifact went away. A
  process starts with no handle and serves one request while the artifact is in place;
  the artifact is then removed; the next request is scored with the cached model.
\<close>

theorem ml_detector_cached_counterexample:
  "snd (ml_detector (table_host [] 12) Absent
          (sample_tx 100 [] ''Zomato'' False Map.empty)
          (fst (ml_detector (table_host [] 12) (Stored (Some (constant_classifier 0 1)))
                  (sample_tx 100 [] ''Zomato'' False Map.empty)
                  \<lparr>ml_model = None, trace = []\<rparr>)))
   = Inr (False, 1 / 2, [])"
  by (simp add: ml_detector_def load_ml_model_def log_event_def parse_iso_hour_def
      meta_hour_def table_host_def sample_tx_def constant_classifier_def Let_def)

text \<open>
  Claim C8. Along any sequence of calls of \<^verbatim>\<open>load_ml_model\<close>, whatever is at the model
  path at each call, the handle goes from unloaded to loaded at most once; and from a state
  whose handle is loaded, every later call returns that handle and leaves the whole
  process state, handle and trace, as it was, so nothing is read from disk again.
\<close>

theorem load_ml_model_once:
  "handle_loads arts p \<le> 1
   \<and> (ml_model p = Some m \<longrightarrow>
        run_loads arts p = (p, replicate (length arts) (Inr (Some m))))"
  using handle_loads_le [of arts p] run_loads_cached [of p m arts] by blast

theorem load_ml_model_once_witness:
  "load_ml_model (Stored (Some (constant_classifier 0 1))) \<lparr>ml_model = None, trace = []\<rparr> =
     (\<lparr>ml_model = Some (constant_classifier 0 1), trace = [PathExists, JoblibLoad]\<rparr>,
      Inr (Some (constant_classifier 0 1)))
   \<and> run_loads [Absent, Unreadable, Stored None]
       \<lparr>ml_model = Some (constant_classifier 0 1), trace = [PathExists, JoblibLoad]\<rparr> =
     (\<lparr>ml_model = Some (constant_classifier 0 1), trace = [PathExists, JoblibLoad]\<rparr>,
      [Inr (Some (constant_classifier 0 1)), Inr (Some (constant_classifier 0 1)),
       Inr (Some (constant_classifier 0 1))])"
  using load_ml_model_once
    [of "[Absent, Unreadable, Stored None]"
        "\<lparr>ml_model = Some (constant_classifier 0 1), trace = [PathExists, JoblibLoad]\<rparr>"
        "constant_classifier 0 1"]
  by (simp add: load_ml_model_def log_event_def numeral_eq_Suc)

end
